theory Spec2Isabelle
  imports Main "HOL-Library.AList"
begin

section \<open>Events queue of the Nexmo client SDK (handlers/events\_queue.js)\<close>

text \<open>
  The module orders the events of each conversation by their numeric id before they
  reach \<open>application._handleEvent\<close>. It has two classes: \<open>EventsQueue\<close>, which maps
  conversation ids to processors, and \<open>ConversationEventsProcessor\<close>, which buffers the
  events of one conversation and drains them in order, asking the conversation service
  for events that are missing.

  JavaScript numbers are modelled as \<open>NaN\<close> or an integer: the ids of the conversation
  service are integer sequence numbers, and on integers below \<open>2^53\<close> the arithmetic of
  the source (\<open>+ 1\<close>, \<open>- 1\<close>, \<open>- 20\<close>, \<open>+ range\<close>, \<open><\<close>, \<open>>\<close>) is exact. Every comparison
  with \<open>NaN\<close> is false and every sum with \<open>NaN\<close> is \<open>NaN\<close>, as in the language.
\<close>

subsection \<open>Numbers\<close>

datatype jsnum = NaN | Num int

fun isNaN :: "jsnum \<Rightarrow> bool" where
  "isNaN NaN = True"
| "isNaN (Num _) = False"

fun js_gt :: "jsnum \<Rightarrow> jsnum \<Rightarrow> bool" where
  "js_gt (Num a) (Num b) = (a > b)"
| "js_gt _ _ = False"

fun js_lt :: "jsnum \<Rightarrow> jsnum \<Rightarrow> bool" where
  "js_lt (Num a) (Num b) = (a < b)"
| "js_lt _ _ = False"

fun js_add :: "jsnum \<Rightarrow> jsnum \<Rightarrow> jsnum" where
  "js_add (Num a) (Num b) = Num (a + b)"
| "js_add _ _ = NaN"

fun js_sub :: "jsnum \<Rightarrow> jsnum \<Rightarrow> jsnum" where
  "js_sub (Num a) (Num b) = Num (a - b)"
| "js_sub _ _ = NaN"

subsection \<open>Events\<close>

text \<open>
  An event as the module reads it. \<open>ev_id\<close> is the value of \<open>Number(event.id)\<close>;
  \<open>ev_cid\<close> and \<open>ev_from\<close> are \<open>None\<close> when the property is undefined. The body is
  looked at through \<open>event.body?.media?.audio\<close> and \<open>event.body?.channel?.id\<close> only,
  and \<open>audio\<close> is the truthiness of the former's value.
\<close>

record body_media =
  audio :: bool

record body_channel =
  channel_id :: "string option"

record event_body =
  media :: "body_media option"
  channel :: "body_channel option"
  content :: string

record event =
  ev_id :: jsnum
  ev_cid :: "string option"
  ev_type :: string
  ev_from :: "string option"
  ev_body :: "event_body option"

definition truthy :: "string option \<Rightarrow> bool" where
  "truthy s = (case s of None \<Rightarrow> False | Some t \<Rightarrow> t \<noteq> [])"

definition media_audio :: "event \<Rightarrow> bool" where
  "media_audio e =
     (case ev_body e of None \<Rightarrow> False
      | Some b \<Rightarrow> (case media b of None \<Rightarrow> False | Some m \<Rightarrow> audio m))"

definition channel_has_id :: "event \<Rightarrow> bool" where
  "channel_has_id e =
     (case ev_body e of None \<Rightarrow> False
      | Some b \<Rightarrow> (case channel b of None \<Rightarrow> False | Some c \<Rightarrow> truthy (channel_id c)))"

subsection \<open>The collaborators\<close>

text \<open>
  The module calls three functions it does not define: the callback given to the
  \<open>EventsQueue\<close> constructor, \<open>application._handleEvent\<close>, and
  \<open>utils.paginationRequest\<close>. Each call is appended to a log with its outcome
  (\<open>False\<close>: the call threw or its promise was rejected; \<open>None\<close>: the request failed).
  A collaborator answers as a function of the log so far and of its arguments, so its
  answers may change from call to call. \<open>HandleEvent\<close> also records the cid of the
  processor that made the call.
\<close>

datatype call =
    Callback event bool
  | HandleEvent string event bool
  | PaginationRequest string jsnum jsnum "event list option"

record env =
  callback :: "call list \<Rightarrow> event \<Rightarrow> bool"
  handleEvent :: "call list \<Rightarrow> event \<Rightarrow> bool"
  paginationRequest :: "call list \<Rightarrow> string \<Rightarrow> jsnum \<Rightarrow> jsnum \<Rightarrow> event list option"

datatype error = NexmoApiError | CallbackError

subsection \<open>ConversationEventsProcessor\<close>

text \<open>
  \<open>eventsMap\<close> is a JavaScript \<open>Map\<close> keyed by number; the source never iterates it, so
  it is an association list with one entry per key, empty exactly when \<open>size < 1\<close>.
\<close>

record processor =
  cid :: string
  eventsMap :: "(jsnum \<times> event) list"
  lastEventIdProcessed :: jsnum
  largestEventIdInQueue :: jsnum
  processing :: bool
  eventsFetchRange :: jsnum

definition ConversationEventsProcessor :: "string \<Rightarrow> jsnum \<Rightarrow> processor" where
  "ConversationEventsProcessor c lastId =
     \<lparr> cid = c, eventsMap = [], lastEventIdProcessed = lastId,
       largestEventIdInQueue = lastId, processing = False, eventsFetchRange = Num 9 \<rparr>"

definition enqueue :: "processor \<Rightarrow> jsnum \<Rightarrow> event \<Rightarrow> processor" where
  "enqueue p eventId ev =
     (let p1 = (if js_gt eventId (largestEventIdInQueue p)
                then p\<lparr>largestEventIdInQueue := eventId\<rparr> else p)
      in if js_gt eventId (lastEventIdProcessed p1)
         then p1\<lparr>eventsMap := AList.update eventId ev (eventsMap p1)\<rparr>
         else p1)"

definition dequeue :: "processor \<Rightarrow> jsnum \<Rightarrow> event option \<times> processor" where
  "dequeue p eventId =
     (map_of (eventsMap p) eventId, p\<lparr>eventsMap := AList.delete eventId (eventsMap p)\<rparr>)"

text \<open>
  \<open>fetchConversationEvents\<close> asks for the ids from \<open>start_id\<close> to \<open>end_id\<close>, where the
  end is \<open>range\<close> past the largest id seen when that is above the start, and \<open>range\<close>
  past the start otherwise. A failed request is rethrown as \<open>NexmoApiError\<close>.
\<close>

definition fetchConversationEvents ::
  "env \<Rightarrow> processor \<Rightarrow> call list \<Rightarrow> jsnum \<Rightarrow> jsnum \<Rightarrow> (error + event list) \<times> call list" where
  "fetchConversationEvents E p h start_id rng =
     (let end_id = (if js_gt (largestEventIdInQueue p) start_id
                    then js_add (largestEventIdInQueue p) rng
                    else js_add start_id rng);
          r = paginationRequest E h (cid p) start_id end_id;
          h' = h @ [PaginationRequest (cid p) start_id end_id r]
      in case r of None \<Rightarrow> (Inl NexmoApiError, h') | Some eventsList \<Rightarrow> (Inr eventsList, h'))"

text \<open>The body of the \<open>forEach\<close> in \<open>fetchEventsAndProcess\<close>.\<close>

definition mergeFetched :: "jsnum \<Rightarrow> event \<Rightarrow> event option \<times> processor \<Rightarrow> event option \<times> processor" where
  "mergeFetched missingEvent ev0 fp =
     (case fp of (foundEvent, p) \<Rightarrow>
        let ev = ev0\<lparr>ev_cid := Some (cid p)\<rparr>;
            eventId = ev_id ev
        in if isNaN eventId \<or> js_lt eventId missingEvent then (foundEvent, p)
           else if js_gt eventId missingEvent then (foundEvent, enqueue p eventId ev)
           else (Some ev, p))"

definition fetchEventsAndProcess ::
  "env \<Rightarrow> processor \<Rightarrow> call list \<Rightarrow> jsnum \<Rightarrow> event option \<times> processor \<times> call list" where
  "fetchEventsAndProcess E p h missingEvent =
     (case fetchConversationEvents E p h missingEvent (eventsFetchRange p) of
        (Inl e, h') \<Rightarrow> (None, p, h')
      | (Inr eventsList, h') \<Rightarrow>
          (case fold (mergeFetched missingEvent) eventsList (None, p) of
             (foundEvent, p') \<Rightarrow> (foundEvent, p', h')))"

text \<open>
  \<open>this.callback(event)\<close> of the processor is \<open>application._handleEvent(event)\<close>. The
  surrounding \<open>try\<close> turns a failure into the result \<open>undefined\<close>.
\<close>

definition handle :: "env \<Rightarrow> processor \<Rightarrow> call list \<Rightarrow> event \<Rightarrow> event option \<times> processor \<times> call list" where
  "handle E p h ev =
     (let ok = handleEvent E h ev;
          h' = h @ [HandleEvent (cid p) ev ok]
      in (if ok then Some ev else None, p, h'))"

text \<open>
  \<open>processNextEvent\<close> and \<open>processEvents\<close> call themselves for as long as the
  conversation service keeps returning higher ids, so both take fuel: \<open>None\<close> stands
  for a run that has not returned within it.
\<close>

fun processNextEvent ::
  "nat \<Rightarrow> env \<Rightarrow> processor \<Rightarrow> call list \<Rightarrow> jsnum \<Rightarrow> (event option \<times> processor \<times> call list) option" where
  "processNextEvent 0 E p h eventId = None"
| "processNextEvent (Suc n) E p h eventId =
     (case dequeue p eventId of
        (Some ev, p1) \<Rightarrow> Some (handle E p1 h ev)
      | (None, p1) \<Rightarrow>
          if js_gt (largestEventIdInQueue p1) eventId
          then (case fetchEventsAndProcess E p1 h eventId of
                  (Some foundEvent, p2, h2) \<Rightarrow> Some (handle E p2 h2 foundEvent)
                | (None, p2, h2) \<Rightarrow> processNextEvent n E p2 h2 (js_add eventId (Num 1)))
          else Some (None, p1, h))"

definition doneProcessing :: "processor \<Rightarrow> processor" where
  "doneProcessing p = p\<lparr>eventsMap := [], processing := False\<rparr>"

fun processEvents :: "nat \<Rightarrow> env \<Rightarrow> processor \<Rightarrow> call list \<Rightarrow> (processor \<times> call list) option" where
  "processEvents 0 E p h = None"
| "processEvents (Suc n) E p h =
     (if eventsMap p = [] then Some (doneProcessing p, h)
      else
        let nextEventToProcess = js_add (lastEventIdProcessed p) (Num 1)
        in case processNextEvent n E p h nextEventToProcess of
             None \<Rightarrow> None
           | Some (Some processedEvent, p1, h1) \<Rightarrow>
               processEvents n E (p1\<lparr>lastEventIdProcessed := ev_id processedEvent\<rparr>) h1
           | Some (None, p1, h1) \<Rightarrow> Some (doneProcessing p1, h1))"

subsection \<open>EventsQueue\<close>

record queue =
  cidMap :: "string \<rightharpoonup> processor"

definition EventsQueue :: queue where
  "EventsQueue = \<lparr> cidMap = Map.empty \<rparr>"

text \<open>The body of the \<open>forEach\<close> over the events fetched on creation of a processor.\<close>

definition scanFetched :: "event \<Rightarrow> event \<Rightarrow> bool \<times> processor \<Rightarrow> bool \<times> processor" where
  "scanFetched ev fetchedEvent tp =
     (case tp of (transferEventFound, p) \<Rightarrow>
        let (found1, p1) =
              (if ev_type fetchedEvent = ''rtc:transfer'' \<and> ev_from fetchedEvent = ev_from ev
               then (True, p\<lparr>lastEventIdProcessed := js_sub (ev_id fetchedEvent) (Num 1)\<rparr>)
               else (transferEventFound, p))
        in if found1 then (found1, enqueue p1 (ev_id fetchedEvent) fetchedEvent)
           else (found1, p1))"

definition isTransferTrigger :: "event \<Rightarrow> bool" where
  "isTransferTrigger ev =
     (ev_type ev = ''member:media'' \<and> media_audio ev \<or>
      ev_type ev = ''member:joined'' \<and> channel_has_id ev)"

text \<open>
  The part of \<open>EventsQueue.enqueue\<close> that creates the processor of a new cid. The
  request of the lookback is not inside a \<open>try\<close>: its failure leaves \<open>enqueue\<close> before
  the processor is stored.
\<close>

definition createProcessor ::
  "env \<Rightarrow> call list \<Rightarrow> string \<Rightarrow> jsnum \<Rightarrow> event \<Rightarrow> (error + processor) \<times> call list" where
  "createProcessor E h c eventId ev =
     (let newConversationEventsProcessor = ConversationEventsProcessor c (js_sub eventId (Num 1))
      in if isTransferTrigger ev
         then
           let startingFetchEventId =
                 (if js_lt (js_sub eventId (Num 20)) (Num 1) then Num 1 else js_sub eventId (Num 20))
           in case fetchConversationEvents E newConversationEventsProcessor h startingFetchEventId (Num 20) of
                (Inl e, h') \<Rightarrow> (Inl e, h')
              | (Inr events, h') \<Rightarrow>
                  (Inr (snd (fold (scanFetched ev) events (False, newConversationEventsProcessor))), h')
         else (Inr newConversationEventsProcessor, h))"

text \<open>
  \<open>EventsQueue.enqueue(event, application)\<close>. The result is \<open>Inl\<close> when the promise of
  \<open>enqueue\<close> is rejected and \<open>Inr ()\<close> when it resolves.
\<close>

definition startProcessing ::
  "nat \<Rightarrow> env \<Rightarrow> queue \<Rightarrow> call list \<Rightarrow> string \<Rightarrow> processor \<Rightarrow> jsnum \<Rightarrow> event
     \<Rightarrow> ((error + unit) \<times> queue \<times> call list) option" where
  "startProcessing fuel E q h c p eventId ev =
     (let p1 = enqueue p eventId ev
      in if \<not> processing p1
         then (case processEvents fuel E (p1\<lparr>processing := True\<rparr>) h of
                 None \<Rightarrow> None
               | Some (p2, h2) \<Rightarrow> Some (Inr (), q\<lparr>cidMap := (cidMap q)(c \<mapsto> p2)\<rparr>, h2))
         else Some (Inr (), q\<lparr>cidMap := (cidMap q)(c \<mapsto> p1)\<rparr>, h))"

definition EventsQueue_enqueue ::
  "nat \<Rightarrow> env \<Rightarrow> queue \<Rightarrow> call list \<Rightarrow> event \<Rightarrow> ((error + unit) \<times> queue \<times> call list) option" where
  "EventsQueue_enqueue fuel E q h ev =
     (let eventId = ev_id ev
      in if \<not> truthy (ev_cid ev) \<or> isNaN eventId
         then
           let ok = callback E h ev
           in Some (if ok then Inr () else Inl CallbackError, q, h @ [Callback ev ok])
         else
           let c = the (ev_cid ev)
           in case cidMap q c of
                None \<Rightarrow>
                  (case createProcessor E h c eventId ev of
                     (Inl e, h') \<Rightarrow> Some (Inl e, q, h')
                   | (Inr p, h') \<Rightarrow> startProcessing fuel E q h' c p eventId ev)
              | Some p \<Rightarrow> startProcessing fuel E q h c p eventId ev)"



subsection \<open>Notions used to state the properties\<close>

fun js_le :: "jsnum \<Rightarrow> jsnum \<Rightarrow> bool" where
  "js_le (Num a) (Num b) = (a \<le> b)"
| "js_le _ _ = False"

text \<open>The calls of \<open>_handleEvent\<close> in a log, in order, and the ids handed over.\<close>

fun handled :: "call list \<Rightarrow> (string \<times> event \<times> bool) list" where
  "handled [] = []"
| "handled (HandleEvent c e ok # h) = (c, e, ok) # handled h"
| "handled (x # h) = handled h"


definition handedIds :: "call list \<Rightarrow> jsnum list" where
  "handedIds t = map (\<lambda>(c, e, ok). ev_id e) (handled t)"

text \<open>
  The ids a conversation's processor handed to \<open>_handleEvent\<close>, and those among them
  whose call returned.
\<close>

definition handedIdsOf :: "string \<Rightarrow> call list \<Rightarrow> jsnum list" where
  "handedIdsOf c t = map (\<lambda>(c', e, ok). ev_id e) (filter (\<lambda>(c', e, ok). c' = c) (handled t))"

definition processedIdsOf :: "string \<Rightarrow> call list \<Rightarrow> jsnum list" where
  "processedIdsOf c t =
     map (\<lambda>(c', e, ok). ev_id e) (filter (\<lambda>(c', e, ok). c' = c \<and> ok) (handled t))"

text \<open>
  A processor is well formed when the largest id seen is a number and every buffered
  event is stored under its own id, which is at most the largest id seen. All callers of
  \<open>enqueue\<close> pass \<open>Number(event.id)\<close> as the key.
\<close>

definition wf_processor :: "processor \<Rightarrow> bool" where
  "wf_processor p =
     (\<not> isNaN (largestEventIdInQueue p) \<and>
      (\<forall>(k, e) \<in> set (eventsMap p). ev_id e = k \<and> js_le k (largestEventIdInQueue p)))"

text \<open>
  The two invariants of the specification: the last id processed is at most the largest
  id seen, and no buffered key is at or below the last id processed.
\<close>

definition pendingIds :: "processor \<Rightarrow> jsnum set" where
  "pendingIds p = fst ` set (eventsMap p)"

definition ordered :: "processor \<Rightarrow> bool" where
  "ordered p =
     (js_le (lastEventIdProcessed p) (largestEventIdInQueue p) \<and>
      (\<forall>k \<in> pendingIds p. js_gt k (lastEventIdProcessed p)))"








text \<open>What the scan of the lookback does with the events after a transfer.\<close>

definition enqueueFetched :: "event list \<Rightarrow> processor \<Rightarrow> processor" where
  "enqueueFetched evs p = fold (\<lambda>f p. enqueue p (ev_id f) f) evs p"


definition buffered :: "processor \<Rightarrow> event set" where
  "buffered p = snd ` set (eventsMap p)"


subsection \<open>Scenarios\<close>

text \<open>
  Concrete events, collaborators and processors on which the properties are run. An
  incoming event carries its cid; an event of the conversation service's answer does not
  (the processor adds it back).
\<close>

definition incoming :: "int \<Rightarrow> string \<Rightarrow> event" where
  "incoming n s =
     \<lparr> ev_id = Num n, ev_cid = Some ''CON-1'', ev_type = ''text'', ev_from = Some ''MEM-1'',
       ev_body = Some \<lparr> media = None, channel = None, content = s \<rparr> \<rparr>"

definition joined :: "int \<Rightarrow> event" where
  "joined n =
     \<lparr> ev_id = Num n, ev_cid = Some ''CON-1'', ev_type = ''member:joined'',
       ev_from = Some ''MEM-1'',
       ev_body = Some \<lparr> media = None, channel = Some \<lparr> channel_id = Some ''CH-1'' \<rparr>,
                        content = [] \<rparr> \<rparr>"



definition env_down :: env where
  "env_down = \<lparr> callback = (\<lambda>h e. True), handleEvent = (\<lambda>h e. True),
                 paginationRequest = (\<lambda>h c s e. None) \<rparr>"

definition p10 :: processor where
  "p10 = ConversationEventsProcessor ''CON-1'' (Num 10)"

definition fetched :: "int \<Rightarrow> string \<Rightarrow> event" where
  "fetched n s =
     \<lparr> ev_id = Num n, ev_cid = None, ev_type = ''text'', ev_from = Some ''MEM-1'',
       ev_body = Some \<lparr> media = None, channel = None, content = s \<rparr> \<rparr>"

definition p13 :: processor where
  "p13 = (enqueue p10 (Num 13) (incoming 13 ''q''))\<lparr>processing := True\<rparr>"

definition p15 :: processor where
  "p15 = (enqueue p10 (Num 15) (incoming 15 ''q''))\<lparr>processing := True\<rparr>"



definition env_recover :: env where
  "env_recover = \<lparr> callback = (\<lambda>h e. True), handleEvent = (\<lambda>h e. True),
       paginationRequest = (\<lambda>h c s e. if s = Num 11
                                         then Some [fetched 11 ''f'', fetched 12 ''f'', fetched 13 ''f'']
                                         else Some []) \<rparr>"

definition env_recover14 :: env where
  "env_recover14 = \<lparr> callback = (\<lambda>h e. True), handleEvent = (\<lambda>h e. True),
       paginationRequest = (\<lambda>h c s e. if s = Num 11
                                         then Some [fetched 11 ''f'', fetched 12 ''f'', fetched 13 ''f'']
                                         else Some [fetched 14 ''f'']) \<rparr>"










section \<open>Basic facts\<close>

subsection \<open>Numbers and logs\<close>


lemma js_gt_Num2: "js_gt (Num a) b = (\<exists>x. b = Num x \<and> a > x)"
  by (cases b) auto

lemma js_lt_Num: "js_lt a (Num b) = (\<exists>x. a = Num x \<and> x < b)"
  by (cases a) auto



lemma js_gt_NaN [simp]: "\<not> js_gt a NaN"
  by (cases a) auto

lemma js_lt_NaN [simp]: "\<not> js_lt a NaN"
  by (cases a) auto

lemma js_le_NaN [simp]: "\<not> js_le a NaN"
  by (cases a) auto






lemma handedIds_Nil [simp]: "handedIds [] = []"
  by (simp add: handedIds_def)

lemma handedIds_Cons [simp]: "handedIds (HandleEvent c e ok # t) = ev_id e # handedIds t"
  by (simp add: handedIds_def)

subsection \<open>enqueue and dequeue\<close>

lemma enqueue_cid [simp]: "cid (enqueue p k e) = cid p"
  and enqueue_last [simp]: "lastEventIdProcessed (enqueue p k e) = lastEventIdProcessed p"
  and enqueue_processing [simp]: "processing (enqueue p k e) = processing p"
  and enqueue_range [simp]: "eventsFetchRange (enqueue p k e) = eventsFetchRange p"
  by (simp_all add: enqueue_def Let_def)





lemma wf_processor_last_update [simp]:
  "wf_processor (p\<lparr>lastEventIdProcessed := l\<rparr>) = wf_processor p"
  by (simp add: wf_processor_def)

lemma wf_processor_processing_update [simp]:
  "wf_processor (p\<lparr>processing := b\<rparr>) = wf_processor p"
  by (simp add: wf_processor_def)





subsection \<open>Merging fetched events\<close>








subsection \<open>One call of processNextEvent\<close>





subsection \<open>One pass of processEvents\<close>





subsection \<open>More fuel does not change a result\<close>

lemma processNextEvent_fuel:
  "processNextEvent n E p h k = Some r \<Longrightarrow> n \<le> m \<Longrightarrow> processNextEvent m E p h k = Some r"
proof (induction n arbitrary: m p h k)
  case 0
  then show ?case by simp
next
  case (Suc n)
  then obtain m' where m: "m = Suc m'" "n \<le> m'" by (cases m) auto
  show ?case
  proof (cases "map_of (eventsMap p) k")
    case (Some ev)
    with Suc.prems(1) m show ?thesis by (simp add: dequeue_def)
  next
    case None
    show ?thesis
    proof (cases "js_gt (largestEventIdInQueue p) k")
      case False
      with None Suc.prems(1) m show ?thesis by (simp add: dequeue_def)
    next
      case True
      obtain f p2 h2 where
        fe: "fetchEventsAndProcess E (p\<lparr>eventsMap := AList.delete k (eventsMap p)\<rparr>) h k = (f, p2, h2)"
        by (cases "fetchEventsAndProcess E (p\<lparr>eventsMap := AList.delete k (eventsMap p)\<rparr>) h k")
      show ?thesis
      proof (cases f)
        case None2: None
        with None True fe Suc.prems(1)
        have "processNextEvent n E p2 h2 (js_add k (Num 1)) = Some r" by (simp add: dequeue_def)
        from Suc.IH [OF this m(2)] None True fe None2 m(1) show ?thesis by (simp add: dequeue_def)
      next
        case (Some fev)
        with None True fe Suc.prems(1) m show ?thesis by (simp add: dequeue_def)
      qed
    qed
  qed
qed

lemma processEvents_fuel:
  "processEvents n E p h = Some r \<Longrightarrow> n \<le> m \<Longrightarrow> processEvents m E p h = Some r"
proof (induction n arbitrary: m p h)
  case 0
  then show ?case by simp
next
  case (Suc n)
  then obtain m' where m: "m = Suc m'" "n \<le> m'" by (cases m) auto
  show ?case
  proof (cases "eventsMap p = []")
    case True
    with Suc.prems(1) m show ?thesis by simp
  next
    case False
    let ?k = "js_add (lastEventIdProcessed p) (Num 1)"
    from Suc.prems(1) False obtain f p1 h1 where
      nx: "processNextEvent n E p h ?k = Some (f, p1, h1)"
      by (cases "processNextEvent n E p h ?k") (auto simp: Let_def)
    from processNextEvent_fuel [OF nx m(2)]
    have nx': "processNextEvent m' E p h ?k = Some (f, p1, h1)" .
    show ?thesis
    proof (cases f)
      case None
      with Suc.prems(1) False nx nx' m(1) show ?thesis by (simp add: Let_def)
    next
      case (Some ev)
      with Suc.prems(1) False nx
      have "processEvents n E (p1\<lparr>lastEventIdProcessed := ev_id ev\<rparr>) h1 = Some r"
        by (simp add: Let_def)
      from Suc.IH [OF this m(2)] Some False nx' m(1) show ?thesis by (simp add: Let_def)
    qed
  qed
qed



subsection \<open>The invariants of the specification\<close>


lemma dom_delete: "fst ` set (AList.delete k al) = fst ` set al - {k}"
  by (induction al) auto



lemma pendingIds_delete [simp]:
  "pendingIds (p\<lparr>eventsMap := AList.delete k (eventsMap p)\<rparr>) = pendingIds p - {k}"
  by (simp add: pendingIds_def dom_delete)

lemma pendingIds_last_update [simp]:
  "pendingIds (p\<lparr>lastEventIdProcessed := l\<rparr>) = pendingIds p"
  by (simp add: pendingIds_def)





















subsection \<open>A pass returns when the ids of the service are bounded\<close>











subsection \<open>A failed request in the recovery of a gap\<close>

text \<open>
  \<open>fetchEventsAndProcess\<close> catches the failure of its request: the result and the
  processor are those of an answer without events.
\<close>

lemma fetch_failure_as_not_found:
  assumes "paginationRequest E h c m e = None" "paginationRequest E' h c m e = Some []"
    and "c = cid p"
    and "e = (if js_gt (largestEventIdInQueue p) m
              then js_add (largestEventIdInQueue p) (eventsFetchRange p)
              else js_add m (eventsFetchRange p))"
  shows "fetchEventsAndProcess E p h m = (None, p, h @ [PaginationRequest c m e None])"
    and "fetchEventsAndProcess E' p h m = (None, p, h @ [PaginationRequest c m e (Some [])])"
  using assms by (simp_all add: fetchEventsAndProcess_def fetchConversationEvents_def Let_def)

lemmas run_defs = dequeue_def fetchEventsAndProcess_def fetchConversationEvents_def
  mergeFetched_def enqueue_def handle_def doneProcessing_def Let_def

lemmas scenario_defs = p10_def p13_def p15_def incoming_def fetched_def
  ConversationEventsProcessor_def

subsection \<open>Skipping a missing id\<close>





subsection \<open>A call of the handler that fails\<close>












subsection \<open>The ids handled for one conversation\<close>



lemma handedIdsOf_simps [simp]:
  "handedIdsOf c [] = []"
  "handedIdsOf c (HandleEvent c' e ok # t) = (if c' = c then ev_id e # handedIdsOf c t else handedIdsOf c t)"
  "handedIdsOf c (PaginationRequest c' s en r # t) = handedIdsOf c t"
  "handedIdsOf c (Callback e ok # t) = handedIdsOf c t"
  by (simp_all add: handedIdsOf_def)

lemma processedIdsOf_simps [simp]:
  "processedIdsOf c [] = []"
  "processedIdsOf c (HandleEvent c' e ok # t) =
     (if c' = c \<and> ok then ev_id e # processedIdsOf c t else processedIdsOf c t)"
  "processedIdsOf c (PaginationRequest c' s en r # t) = processedIdsOf c t"
  "processedIdsOf c (Callback e ok # t) = processedIdsOf c t"
  by (simp_all add: processedIdsOf_def)









subsection \<open>Creation of a processor\<close>





subsection \<open>The invariant of the queue\<close>














subsection \<open>The scan of the lookback\<close>








lemma ordered_processing_update [simp]: "ordered (p\<lparr>processing := b\<rparr>) = ordered p"
  by (simp add: ordered_def pendingIds_def)



lemma pendingIds_processing_update [simp]:
  "pendingIds (p\<lparr>processing := b\<rparr>) = pendingIds p"
  by (simp add: pendingIds_def)

lemma enqueueFetched_last [simp]:
  "lastEventIdProcessed (enqueueFetched evs p) = lastEventIdProcessed p"
  unfolding enqueueFetched_def by (induction evs arbitrary: p) simp_all








subsection \<open>Runs of the scenarios\<close>









subsection \<open>Where a handled event comes from\<close>





lemma buffered_last_update [simp]: "buffered (p\<lparr>lastEventIdProcessed := l\<rparr>) = buffered p"
  by (simp add: buffered_def)











section \<open>The claims\<close>

subsection \<open>C1: the order of the calls of the handler\<close>





subsection \<open>C5: a failed request of the lookback\<close>

text \<open>
  Claim C5: a failure of the history fetch is recovered inside the engine and never
  reaches the caller of \<open>EventsQueue.enqueue\<close>, on every path that fetches, the lookback
  on creation of a conversation's processor included. The recovery of a gap does catch
  it (see above). The lookback does not: for a \<open>member:joined\<close> event with a channel id
  that is the first of its conversation, a failing request makes \<open>enqueue\<close> reject with
  \<open>NexmoApiError\<close>; no processor is stored, and the event is never handed to the handler.
\<close>

theorem C5_lookback_failure_rejects:
  "EventsQueue_enqueue fuel env_down EventsQueue [] (joined 30) =
     Some (Inl NexmoApiError, EventsQueue, [PaginationRequest ''CON-1'' (Num 10) (Num 49) None])"
  by (simp add: EventsQueue_enqueue_def createProcessor_def fetchConversationEvents_def
      isTransferTrigger_def channel_has_id_def truthy_def joined_def env_down_def EventsQueue_def
      ConversationEventsProcessor_def Let_def)

theorem C5_lookback_failure_rejects_witness:
  "EventsQueue_enqueue 0 env_down EventsQueue [] (joined 30) =
     Some (Inl NexmoApiError, EventsQueue, [PaginationRequest ''CON-1'' (Num 10) (Num 49) None])"
  by (rule C5_lookback_failure_rejects)

subsection \<open>C8: enqueue\<close>




subsection \<open>C9: events outside every sequence\<close>




subsection \<open>C2: skipping a missing id\<close>




subsection \<open>C3: recovery of a gap\<close>

text \<open>
  Claim C3, as amended: with last id 10, largest id 15 and event 15 buffered, the pass
  requests the ids from 11 (to 24); when the answer is \<open>[11, 12, 13]\<close> those three are
  handled in that order. Then, as the largest id 15 is above 14, a second request is
  made from 14. Id 14 does not block the pass: it is handled when the second answer
  holds it, and skipped when the request fails or answers with no event; in both cases
  event 15 is handled next and the pass ends with last id 15.
\<close>

theorem C3_recovery:
  assumes "eventsMap p = [(Num 15, e15)]" "lastEventIdProcessed p = Num 10"
      "largestEventIdInQueue p = Num 15" "eventsFetchRange p = Num 9"
    and "ev_id e15 = Num 15" "ev_id f11 = Num 11" "ev_id f12 = Num 12" "ev_id f13 = Num 13"
    and "paginationRequest E h (cid p) (Num 11) (Num 24) = Some [f11, f12, f13]"
    and "\<forall>h e. handleEvent E h e"
    and "t = [PaginationRequest (cid p) (Num 11) (Num 24) (Some [f11, f12, f13]),
              HandleEvent (cid p) (f11\<lparr>ev_cid := Some (cid p)\<rparr>) True,
              HandleEvent (cid p) (f12\<lparr>ev_cid := Some (cid p)\<rparr>) True,
              HandleEvent (cid p) (f13\<lparr>ev_cid := Some (cid p)\<rparr>) True]"
    and "paginationRequest E (h @ t) (cid p) (Num 14) (Num 24) = r2"
    and "8 \<le> n"
  shows "(r2 = None \<or> r2 = Some [] \<longrightarrow>
            processEvents n E p h =
              Some (p\<lparr>eventsMap := [], lastEventIdProcessed := Num 15, processing := False\<rparr>,
                    h @ t @ [PaginationRequest (cid p) (Num 14) (Num 24) r2,
                             HandleEvent (cid p) e15 True])) \<and>
         (r2 = Some [f14] \<and> ev_id f14 = Num 14 \<longrightarrow>
            processEvents n E p h =
              Some (p\<lparr>eventsMap := [], lastEventIdProcessed := Num 15, processing := False\<rparr>,
                    h @ t @ [PaginationRequest (cid p) (Num 14) (Num 24) r2,
                             HandleEvent (cid p) (f14\<lparr>ev_cid := Some (cid p)\<rparr>) True,
                             HandleEvent (cid p) e15 True]))"
proof (intro conjI impI)
  assume "r2 = None \<or> r2 = Some []"
  then have "processEvents 8 E p h =
              Some (p\<lparr>eventsMap := [], lastEventIdProcessed := Num 15, processing := False\<rparr>,
                    h @ t @ [PaginationRequest (cid p) (Num 14) (Num 24) r2,
                             HandleEvent (cid p) e15 True])"
  proof
    assume "r2 = None"
    with assms(1-12) show ?thesis by (simp add: eval_nat_numeral run_defs)
  next
    assume "r2 = Some []"
    with assms(1-12) show ?thesis by (simp add: eval_nat_numeral run_defs)
  qed
  from processEvents_fuel [OF this assms(13)]
  show "processEvents n E p h =
              Some (p\<lparr>eventsMap := [], lastEventIdProcessed := Num 15, processing := False\<rparr>,
                    h @ t @ [PaginationRequest (cid p) (Num 14) (Num 24) r2,
                             HandleEvent (cid p) e15 True])" .
next
  assume "r2 = Some [f14] \<and> ev_id f14 = Num 14"
  with assms(1-12) have "processEvents 8 E p h =
              Some (p\<lparr>eventsMap := [], lastEventIdProcessed := Num 15, processing := False\<rparr>,
                    h @ t @ [PaginationRequest (cid p) (Num 14) (Num 24) r2,
                             HandleEvent (cid p) (f14\<lparr>ev_cid := Some (cid p)\<rparr>) True,
                             HandleEvent (cid p) e15 True])"
    by (simp add: eval_nat_numeral run_defs)
  from processEvents_fuel [OF this assms(13)]
  show "processEvents n E p h =
              Some (p\<lparr>eventsMap := [], lastEventIdProcessed := Num 15, processing := False\<rparr>,
                    h @ t @ [PaginationRequest (cid p) (Num 14) (Num 24) r2,
                             HandleEvent (cid p) (f14\<lparr>ev_cid := Some (cid p)\<rparr>) True,
                             HandleEvent (cid p) e15 True])" .
qed

theorem C3_recovery_witness:
  "processEvents 8 env_recover p15 [] =
     Some (p15\<lparr>eventsMap := [], lastEventIdProcessed := Num 15, processing := False\<rparr>,
           [PaginationRequest ''CON-1'' (Num 11) (Num 24)
              (Some [fetched 11 ''f'', fetched 12 ''f'', fetched 13 ''f'']),
            HandleEvent ''CON-1'' ((fetched 11 ''f'')\<lparr>ev_cid := Some ''CON-1''\<rparr>) True,
            HandleEvent ''CON-1'' ((fetched 12 ''f'')\<lparr>ev_cid := Some ''CON-1''\<rparr>) True,
            HandleEvent ''CON-1'' ((fetched 13 ''f'')\<lparr>ev_cid := Some ''CON-1''\<rparr>) True,
            PaginationRequest ''CON-1'' (Num 14) (Num 24) (Some []),
            HandleEvent ''CON-1'' (incoming 15 ''q'') True]) \<and>
   processEvents 8 env_recover14 p15 [] =
     Some (p15\<lparr>eventsMap := [], lastEventIdProcessed := Num 15, processing := False\<rparr>,
           [PaginationRequest ''CON-1'' (Num 11) (Num 24)
              (Some [fetched 11 ''f'', fetched 12 ''f'', fetched 13 ''f'']),
            HandleEvent ''CON-1'' ((fetched 11 ''f'')\<lparr>ev_cid := Some ''CON-1''\<rparr>) True,
            HandleEvent ''CON-1'' ((fetched 12 ''f'')\<lparr>ev_cid := Some ''CON-1''\<rparr>) True,
            HandleEvent ''CON-1'' ((fetched 13 ''f'')\<lparr>ev_cid := Some ''CON-1''\<rparr>) True,
            PaginationRequest ''CON-1'' (Num 14) (Num 24) (Some [fetched 14 ''f'']),
            HandleEvent ''CON-1'' ((fetched 14 ''f'')\<lparr>ev_cid := Some ''CON-1''\<rparr>) True,
            HandleEvent ''CON-1'' (incoming 15 ''q'') True])"
proof -
  have fields: "eventsMap p15 = [(Num 15, incoming 15 ''q'')]" "lastEventIdProcessed p15 = Num 10"
    "largestEventIdInQueue p15 = Num 15" "eventsFetchRange p15 = Num 9"
    and c: "cid p15 = ''CON-1''"
    by (simp_all add: scenario_defs enqueue_def Let_def)
  have ids: "ev_id (incoming 15 ''q'') = Num 15" "ev_id (fetched 11 ''f'') = Num 11"
    "ev_id (fetched 12 ''f'') = Num 12" "ev_id (fetched 13 ''f'') = Num 13"
    and id14: "ev_id (fetched 14 ''f'') = Num 14"
    by (simp_all add: fetched_def incoming_def)
  let ?t = "[PaginationRequest (cid p15) (Num 11) (Num 24)
               (Some [fetched 11 ''f'', fetched 12 ''f'', fetched 13 ''f'']),
             HandleEvent (cid p15) ((fetched 11 ''f'')\<lparr>ev_cid := Some (cid p15)\<rparr>) True,
             HandleEvent (cid p15) ((fetched 12 ''f'')\<lparr>ev_cid := Some (cid p15)\<rparr>) True,
             HandleEvent (cid p15) ((fetched 13 ''f'')\<lparr>ev_cid := Some (cid p15)\<rparr>) True]"
  have a: "paginationRequest env_recover [] (cid p15) (Num 11) (Num 24) =
             Some [fetched 11 ''f'', fetched 12 ''f'', fetched 13 ''f'']"
    and a2: "paginationRequest env_recover ([] @ ?t) (cid p15) (Num 14) (Num 24) = Some []"
    and ok: "\<forall>h e. handleEvent env_recover h e"
    by (simp_all add: env_recover_def)
  have b: "paginationRequest env_recover14 [] (cid p15) (Num 11) (Num 24) =
             Some [fetched 11 ''f'', fetched 12 ''f'', fetched 13 ''f'']"
    and b2: "paginationRequest env_recover14 ([] @ ?t) (cid p15) (Num 14) (Num 24) =
             Some [fetched 14 ''f'']"
    and ok14: "\<forall>h e. handleEvent env_recover14 h e"
    by (simp_all add: env_recover14_def)
  from C3_recovery [OF fields ids a ok refl a2 order_refl, THEN conjunct1] c
  have 1: "processEvents 8 env_recover p15 [] =
     Some (p15\<lparr>eventsMap := [], lastEventIdProcessed := Num 15, processing := False\<rparr>,
           [PaginationRequest ''CON-1'' (Num 11) (Num 24)
              (Some [fetched 11 ''f'', fetched 12 ''f'', fetched 13 ''f'']),
            HandleEvent ''CON-1'' ((fetched 11 ''f'')\<lparr>ev_cid := Some ''CON-1''\<rparr>) True,
            HandleEvent ''CON-1'' ((fetched 12 ''f'')\<lparr>ev_cid := Some ''CON-1''\<rparr>) True,
            HandleEvent ''CON-1'' ((fetched 13 ''f'')\<lparr>ev_cid := Some ''CON-1''\<rparr>) True,
            PaginationRequest ''CON-1'' (Num 14) (Num 24) (Some []),
            HandleEvent ''CON-1'' (incoming 15 ''q'') True])"
    by simp
  from C3_recovery [OF fields ids b ok14 refl b2 order_refl, THEN conjunct2,
      of "fetched 14 ''f''"] c id14
  have 2: "processEvents 8 env_recover14 p15 [] =
     Some (p15\<lparr>eventsMap := [], lastEventIdProcessed := Num 15, processing := False\<rparr>,
           [PaginationRequest ''CON-1'' (Num 11) (Num 24)
              (Some [fetched 11 ''f'', fetched 12 ''f'', fetched 13 ''f'']),
            HandleEvent ''CON-1'' ((fetched 11 ''f'')\<lparr>ev_cid := Some ''CON-1''\<rparr>) True,
            HandleEvent ''CON-1'' ((fetched 12 ''f'')\<lparr>ev_cid := Some ''CON-1''\<rparr>) True,
            HandleEvent ''CON-1'' ((fetched 13 ''f'')\<lparr>ev_cid := Some ''CON-1''\<rparr>) True,
            PaginationRequest ''CON-1'' (Num 14) (Num 24) (Some [fetched 14 ''f'']),
            HandleEvent ''CON-1'' ((fetched 14 ''f'')\<lparr>ev_cid := Some ''CON-1''\<rparr>) True,
            HandleEvent ''CON-1'' (incoming 15 ''q'') True])"
    by simp
  from 1 2 show ?thesis by blast
qed

theorem C3_counterexample:
  "processEvents 7 env_recover p15 [] =
     Some (\<lparr> cid = ''CON-1'', eventsMap = [], lastEventIdProcessed = Num 15,
             largestEventIdInQueue = Num 15, processing = False, eventsFetchRange = Num 9 \<rparr>,
           [PaginationRequest ''CON-1'' (Num 11) (Num 24)
              (Some [fetched 11 ''f'', fetched 12 ''f'', fetched 13 ''f'']),
            HandleEvent ''CON-1'' ((fetched 11 ''f'')\<lparr>ev_cid := Some ''CON-1''\<rparr>) True,
            HandleEvent ''CON-1'' ((fetched 12 ''f'')\<lparr>ev_cid := Some ''CON-1''\<rparr>) True,
            HandleEvent ''CON-1'' ((fetched 13 ''f'')\<lparr>ev_cid := Some ''CON-1''\<rparr>) True,
            PaginationRequest ''CON-1'' (Num 14) (Num 24) (Some []),
            HandleEvent ''CON-1'' (incoming 15 ''q'') True])"
  by (simp add: eval_nat_numeral run_defs scenario_defs env_recover_def)



subsection \<open>C7: a failure of the handler\<close>





subsection \<open>C4: the invariants of a processor\<close>






subsection \<open>C6: the lookback on creation of a processor\<close>






subsection \<open>C10: what a pass leaves behind\<close>




end
